theory Spec2Isabelle
  imports Complex_Main "HOL-Library.Multiset" "HOL-Library.Sublist"
begin

section \<open>Data model of the export utilities\<close>

text \<open>
  JavaScript strings are modelled as \<^typ>\<open>string\<close>: a list of code units, of which the
  model has the 256 values of \<^typ>\<open>char\<close>. Optional fields are \<^typ>\<open>'a option\<close>.
  The field \<open>_id\<close> of the source is \<open>rid\<close> here, since a name cannot start with an
  underscore.
\<close>

record ReportData =
  rid :: string
  title :: string
  report_type :: string
  content :: string
  summary :: string
  highlights :: string
  suggestions :: string
  generated_at :: string
  period_start :: "string option"
  period_end :: "string option"
  record_count :: "int option"

abbreviation NL :: char where
  "NL \<equiv> CHR 0x0A"

text \<open>
  A template literal \<open>${n}\<close> over a non-negative integer prints its decimal digits.
\<close>

fun showNat :: "nat \<Rightarrow> string" where
  "showNat n =
     (if n < 10 then [''0123456789'' ! n]
      else showNat (n div 10) @ [''0123456789'' ! (n mod 10)])"

declare showNat.simps [simp del]

text \<open>
  \<open>String.prototype.trim\<close> removes white space and line terminators from both ends.
  Of the code units that the model has, these are tab, line feed, vertical tab, form
  feed, carriage return, space and the no-break space.
\<close>

definition isWhiteSpace :: "char \<Rightarrow> bool" where
  "isWhiteSpace c =
     (c = CHR 0x09 \<or> c = CHR 0x0A \<or> c = CHR 0x0B \<or> c = CHR 0x0C \<or> c = CHR 0x0D
      \<or> c = CHR 0x20 \<or> c = CHR 0xA0)"

definition trim :: "string \<Rightarrow> string" where
  "trim s = rev (dropWhile isWhiteSpace (rev (dropWhile isWhiteSpace s)))"

text \<open>Two concrete reports, used to run the definitions on concrete inputs.\<close>

definition sampleReport :: ReportData where
  "sampleReport =
     \<lparr>rid = ''r1'', title = ''Weekly'', report_type = ''weekly'', content = ''Body'',
      summary = ''Sum'', highlights = ''High'', suggestions = ''Next'',
      generated_at = ''2024-03-01T00:00:00.000Z'', period_start = None, period_end = None,
      record_count = None\<rparr>"

definition blankReport :: ReportData where
  "blankReport = sampleReport\<lparr>rid := ''r2'', title := '' '', content := []\<rparr>"

section \<open>Validation before a batch export\<close>

text \<open>
  \<open>validateReportsForExport\<close>: two checks on the size of the selection, then
  \<open>reports.forEach((report, index) => ...)\<close>, which appends to \<open>errors\<close> in the order
  of the reports. The empty string is the only falsy string, so \<open>!s.trim()\<close> holds
  exactly when the trimmed string is empty.
\<close>

fun validateEach :: "nat \<Rightarrow> ReportData list \<Rightarrow> string list \<Rightarrow> string list" where
  "validateEach index [] errors = errors"
| \<open>validateEach index (report # rest) errors =
     (let errors1 =
            (if trim (title report) = []
             then errors @ [''Report '' @ showNat (index + 1) @ '' has no title'']
             else errors);
          errors2 =
            (if trim (content report) = []
             then errors1 @ [''Report "'' @ title report @ ''" has no content'']
             else errors1)
      in validateEach (index + 1) rest errors2)\<close>

definition validateReportsForExport :: "ReportData list \<Rightarrow> string list" where
  "validateReportsForExport reports =
     (let errors0 =
            (if length reports = 0 then [''No reports selected for export''] else []);
          errors1 =
            (if length reports > 50
             then errors0 @ [''Too many reports selected. Maximum 50 reports allowed per batch'']
             else errors0)
      in validateEach 0 reports errors1)"

section \<open>The page loop of the PDF export\<close>





section \<open>Variable substitution\<close>

record TemplateVariable =
  name :: string
  defaultValue :: string
  description :: string













section \<open>Export templates\<close>

text \<open>
  The interface \<open>ExportTemplate\<close> of the template manager. A JavaScript number is a
  rational here, and what the renderers compute on the numbers of a template (a sum, a
  half, a maximum) is computed on the rationals. Fields of different objects that share
  a name in the source carry the name of their object in front.
\<close>

type_synonym number = rat

datatype export_format = Pdf | Word | Markdown

datatype alignment = AlignLeft | AlignCenter | AlignRight


record TemplateHeader =
  header_enabled :: bool
  header_content :: string
  header_height :: number
  header_backgroundColor :: string
  header_textColor :: string
  header_fontSize :: number
  header_alignment :: alignment
  header_showLogo :: bool
  header_logoUrl :: "string option"
  header_showDate :: bool
  header_showPageNumbers :: bool

record TemplateFooter =
  footer_enabled :: bool
  footer_content :: string
  footer_height :: number
  footer_backgroundColor :: string
  footer_textColor :: string
  footer_fontSize :: number
  footer_alignment :: alignment
  footer_showCompanyInfo :: bool
  footer_companyName :: "string option"
  footer_showPageNumbers :: bool
  footer_showGeneratedBy :: bool

record Margins =
  margin_top :: number
  margin_bottom :: number
  margin_left :: number
  margin_right :: number

record Spacing =
  sectionGap :: number
  paragraphGap :: number

record Styling =
  primaryColor :: string
  secondaryColor :: string
  fontFamily :: string
  fontSize :: number
  lineHeight :: number
  margins :: Margins
  spacing :: Spacing

record CustomSection =
  section_id :: string
  section_title :: string
  section_content :: string
  section_order :: number

record Sections =
  showExecutiveSummary :: bool
  showHighlights :: bool
  showDetailedContent :: bool
  showRecommendations :: bool
  customSections :: "CustomSection list"

record ExportTemplate =
  template_id :: string
  template_name :: string
  template_description :: string
  formats :: "export_format list"
  header :: TemplateHeader
  footer :: TemplateFooter
  styling :: Styling
  sections :: Sections
  variables :: "TemplateVariable list"
  createdAt :: string
  updatedAt :: string
  isDefault :: bool

text \<open>
  What the renderers read from the browser: \<open>localeDate s\<close> is
  \<open>new Date(s).toLocaleDateString()\<close>, which depends on the locale and the time zone;
  \<open>today\<close> is \<open>new Date().toLocaleDateString()\<close>, the date of the clock when the
  renderer runs; \<open>numberText x\<close> is the text of the number \<open>x\<close> in a template literal.
\<close>

record host =
  localeDate :: "string \<Rightarrow> string"
  today :: string
  numberText :: "number \<Rightarrow> string"


text \<open>
  \<open>Array.prototype.sort\<close> with the comparator \<open>(a, b) => a.order - b.order\<close> sorts the
  array in place, ascending by \<open>order\<close>, and is stable: \<open>sort_key\<close> is that sort. The
  sorted array is the \<open>customSections\<close> of the template from then on.
\<close>

definition sortCustomSections :: "ExportTemplate \<Rightarrow> ExportTemplate" where
  "sortCustomSections template =
     template\<lparr>sections := (sections template)
       \<lparr>customSections := sort_key section_order (customSections (sections template))\<rparr>\<rparr>"


section \<open>The markdown renderers\<close>




section \<open>The HTML renderers\<close>














section \<open>Concrete inputs for the renderers\<close>

definition sampleHost :: host where
  "sampleHost =
     \<lparr>localeDate = (\<lambda>s. take 10 s), today = ''2024-03-01'',
      numberText = (\<lambda>x. showNat (nat \<lfloor>x\<rfloor>))\<rparr>"



section \<open>The parts of the templated markdown\<close>






section \<open>Batch export\<close>

text \<open>
  A value that is thrown: an \<open>Error\<close> with its message, or a value that is not an
  \<open>Error\<close>.
\<close>

datatype thrown = JsError string | JsOther

text \<open>
  \<open>BatchExportOptions\<close>. A callback returns \<open>None\<close> when it returns and \<open>Some e\<close> when
  it throws \<open>e\<close>; \<open>onError\<close> is given the id of the report and the message of the error
  it is passed. The batch size is a natural number. The delay only postpones the start of
  a task and is not used by the model.
\<close>

record BatchExportOptions =
  format :: export_format
  exportTemplate :: "ExportTemplate option"
  onProgress :: "(nat \<Rightarrow> nat \<Rightarrow> string \<Rightarrow> thrown option) option"
  onError :: "(string \<Rightarrow> string \<Rightarrow> thrown option) option"
  batchSize :: "nat option"
  delayBetweenExports :: "nat option"

text \<open>
  \<open>BatchExportResult\<close>, and with it what a run lets one observe: the calls of the two
  callbacks with their arguments, the reports whose export returned, and the batches the
  loop formed.
\<close>

record BatchExportResult =
  successful :: nat
  failed :: nat
  errors :: "(string \<times> string) list"

record batchRun = BatchExportResult +
  progressCalls :: "(nat \<times> nat \<times> string) list"
  errorCalls :: "(string \<times> string) list"
  exportedReports :: "ReportData list"
  batches :: "ReportData list list"

text \<open>
  The three exports draw on a canvas, build a document and save a file: whether a call
  returns or throws depends on the browser. The environment gives the outcome of each,
  \<open>None\<close> for a call that returns and \<open>Some e\<close> for one that throws \<open>e\<close>.
\<close>

record exporters =
  exportToPDF :: "ReportData \<Rightarrow> ExportTemplate option \<Rightarrow> thrown option"
  exportToWord :: "ReportData \<Rightarrow> ExportTemplate option \<Rightarrow> thrown option"
  exportToMarkdown :: "ReportData \<Rightarrow> ExportTemplate option \<Rightarrow> thrown option"

text \<open>The \<open>switch (format)\<close>; the type of \<open>format\<close> leaves no other case.\<close>

fun exportReport ::
  "exporters \<Rightarrow> export_format \<Rightarrow> ReportData \<Rightarrow> ExportTemplate option \<Rightarrow> thrown option" where
  "exportReport env Pdf report t = exportToPDF env report t"
| "exportReport env Word report t = exportToWord env report t"
| "exportReport env Markdown report t = exportToMarkdown env report t"

text \<open>\<open>onProgress?.(completed, total, currentReport)\<close>, inside the \<open>try\<close> block.\<close>

definition callProgress ::
  "BatchExportOptions \<Rightarrow> nat \<Rightarrow> nat \<Rightarrow> string \<Rightarrow> batchRun \<Rightarrow> (thrown \<times> batchRun) + batchRun" where
  "callProgress options completed totalReports currentReport run =
     (case onProgress options of
        None \<Rightarrow> Inr run
      | Some callback \<Rightarrow>
          (let run' = run\<lparr>progressCalls :=
                 progressCalls run @ [(completed, totalReports, currentReport)]\<rparr>
           in case callback completed totalReports currentReport of
                None \<Rightarrow> Inr run'
              | Some e \<Rightarrow> Inl (e, run')))"

text \<open>
  The \<open>try\<close> block of a task: the notification that the export starts, the export, the
  count of the success and the notification that the export is done. \<open>Inl\<close> carries what
  was thrown and the run as it was then.
\<close>

definition tryExport ::
  "exporters \<Rightarrow> BatchExportOptions \<Rightarrow> nat \<Rightarrow> batchRun \<Rightarrow> nat \<Rightarrow> ReportData
   \<Rightarrow> (thrown \<times> batchRun) + batchRun" where
  "tryExport env options totalReports run globalIndex report =
     (case callProgress options globalIndex totalReports (title report) run of
        Inl thrown_run \<Rightarrow> Inl thrown_run
      | Inr run1 \<Rightarrow>
          (case exportReport env (format options) report (exportTemplate options) of
             Some e \<Rightarrow> Inl (e, run1)
           | None \<Rightarrow>
               (let run2 = run1\<lparr>successful := successful run1 + 1,
                                 exportedReports := exportedReports run1 @ [report]\<rparr>
                in callProgress options (globalIndex + 1) totalReports (title report) run2)))"

text \<open>
  The \<open>catch\<close> block: the message of the error, the count of the failure, the entry in
  \<open>errors\<close> and the call of \<open>onError\<close>. When \<open>onError\<close> throws, the task is rejected.
\<close>

definition catchExport ::
  "BatchExportOptions \<Rightarrow> ReportData \<Rightarrow> thrown \<Rightarrow> batchRun \<Rightarrow> thrown + batchRun" where
  "catchExport options report e run =
     (let errorMessage = (case e of JsError message \<Rightarrow> message | JsOther \<Rightarrow> ''Unknown error'');
          run1 = run\<lparr>failed := failed run + 1,
                     errors := errors run @ [(rid report, errorMessage)]\<rparr>
      in case onError options of
           None \<Rightarrow> Inr run1
         | Some callback \<Rightarrow>
             (let run2 = run1\<lparr>errorCalls := errorCalls run1 @ [(rid report, errorMessage)]\<rparr>
              in case callback (rid report) errorMessage of
                   None \<Rightarrow> Inr run2
                 | Some e' \<Rightarrow> Inl e'))"

definition runTask ::
  "exporters \<Rightarrow> BatchExportOptions \<Rightarrow> nat \<Rightarrow> batchRun \<Rightarrow> nat \<times> ReportData \<Rightarrow> thrown + batchRun" where
  "runTask env options totalReports run task =
     (case task of (globalIndex, report) \<Rightarrow>
        (case tryExport env options totalReports run globalIndex report of
           Inl (e, run') \<Rightarrow> catchExport options report e run'
         | Inr run' \<Rightarrow> Inr run'))"

text \<open>
  The tasks of a batch start together and \<open>Promise.all\<close> waits for them. Between two
  awaits a task runs alone, and what a task does to the result (the count of a success,
  or the count of a failure with its entry in \<open>errors\<close> and the call of \<open>onError\<close>) is
  done between two awaits, so the result after the batch is the result after the tasks
  taken one at a time in the order in which they settle; that order is the browser's,
  given here as a permutation of the tasks. In the browser the calls of \<open>onProgress\<close>
  of two tasks may come in another order than the one recorded here.
  \<open>Promise.all\<close> is rejected by the first task that is rejected, and \<open>batchExport\<close>
  with it.
\<close>

fun runTasks ::
  "exporters \<Rightarrow> BatchExportOptions \<Rightarrow> nat \<Rightarrow> batchRun \<Rightarrow> (nat \<times> ReportData) list
   \<Rightarrow> thrown + batchRun" where
  "runTasks env options totalReports run [] = Inr run"
| "runTasks env options totalReports run (task # rest) =
     (case runTask env options totalReports run task of
        Inl e \<Rightarrow> Inl e
      | Inr run' \<Rightarrow> runTasks env options totalReports run' rest)"

type_synonym schedule = "(nat \<times> ReportData) list \<Rightarrow> (nat \<times> ReportData) list"

definition fairSchedule :: "schedule \<Rightarrow> bool" where
  "fairSchedule settle = (\<forall>tasks. mset (settle tasks) = mset tasks)"

text \<open>\<open>batchSize = 5\<close> in the destructuring: the default stands in for \<open>undefined\<close> only.\<close>

definition effectiveBatchSize :: "BatchExportOptions \<Rightarrow> nat" where
  "effectiveBatchSize options = (case batchSize options of None \<Rightarrow> 5 | Some n \<Rightarrow> n)"

text \<open>
  The \<open>for\<close> loop over the batches. With a batch size of 0 the index never moves and the
  loop does not end: the function has no value there (\<open>None\<close>).
\<close>

partial_function (option) batchLoop ::
  "exporters \<Rightarrow> schedule \<Rightarrow> BatchExportOptions \<Rightarrow> ReportData list \<Rightarrow> nat \<Rightarrow> batchRun
   \<Rightarrow> (thrown + batchRun) option" where
  "batchLoop env settle options reports i run =
     (if i < length reports
      then (let batch = take (effectiveBatchSize options) (drop i reports);
                tasks = zip [i ..< i + length batch] batch;
                run0 = run\<lparr>batches := batches run @ [batch]\<rparr>
            in case runTasks env options (length reports) run0 (settle tasks) of
                 Inl e \<Rightarrow> Some (Inl e)
               | Inr run' \<Rightarrow>
                   batchLoop env settle options reports (i + effectiveBatchSize options) run')
      else Some (Inr run))"

definition emptyRun :: batchRun where
  "emptyRun =
     \<lparr>successful = 0, failed = 0, errors = [], progressCalls = [], errorCalls = [],
      exportedReports = [], batches = []\<rparr>"

definition batchExport ::
  "exporters \<Rightarrow> schedule \<Rightarrow> ReportData list \<Rightarrow> BatchExportOptions \<Rightarrow> (thrown + batchRun) option" where
  "batchExport env settle reports options = batchLoop env settle options reports 0 emptyRun"

declare batchLoop.simps [code]

text \<open>
  Words for the results about a batch: a report whose export throws, the entry that the
  \<open>catch\<close> block adds to \<open>errors\<close> for it, and options whose callbacks never throw.
\<close>

definition exportFails :: "exporters \<Rightarrow> BatchExportOptions \<Rightarrow> ReportData \<Rightarrow> bool" where
  "exportFails env options report =
     (exportReport env (format options) report (exportTemplate options) \<noteq> None)"

definition errorEntry :: "exporters \<Rightarrow> BatchExportOptions \<Rightarrow> ReportData \<Rightarrow> string \<times> string" where
  "errorEntry env options report =
     (rid report,
      case exportReport env (format options) report (exportTemplate options) of
        Some (JsError message) \<Rightarrow> message
      | _ \<Rightarrow> ''Unknown error'')"

definition quietProgress :: "BatchExportOptions \<Rightarrow> bool" where
  "quietProgress options =
     (\<forall>callback. onProgress options = Some callback
        \<longrightarrow> (\<forall>completed totalReports currentReport.
              callback completed totalReports currentReport = None))"

definition quietError :: "BatchExportOptions \<Rightarrow> bool" where
  "quietError options =
     (\<forall>callback. onError options = Some callback
        \<longrightarrow> (\<forall>reportId message. callback reportId message = None))"

text \<open>Concrete inputs for a batch: the markdown export fails for the blank report.\<close>

definition sampleExporters :: exporters where
  "sampleExporters =
     \<lparr>exportToPDF = (\<lambda>report t. None), exportToWord = (\<lambda>report t. None),
      exportToMarkdown = (\<lambda>report t.
        if rid report = ''r2''
        then Some (JsError ''Failed to export Markdown. Please try again.'') else None)\<rparr>"

definition sampleOptions :: BatchExportOptions where
  "sampleOptions =
     \<lparr>format = Markdown, exportTemplate = None,
      onProgress = Some (\<lambda>completed totalReports currentReport. None),
      onError = Some (\<lambda>reportId message. None),
      batchSize = Some 5, delayBetweenExports = Some 500\<rparr>"

section \<open>Combining reports\<close>

text \<open>
  A JSON value, as \<open>JSON.parse\<close> returns it; a number is the value of the double.
\<close>

datatype json =
  JNull | JBool bool | JNumber rat | JString string | JArray "json list"
  | JObject "(string \<times> json) list"

text \<open>
  What the combination reads from the JavaScript runtime: \<open>jsonParse s\<close> is
  \<open>JSON.parse(s)\<close>, \<open>None\<close> when it throws; \<open>jsonStringify v\<close> is \<open>JSON.stringify(v)\<close>;
  \<open>timeOf s\<close> is \<open>new Date(s).getTime()\<close>, \<open>None\<close> for \<open>NaN\<close>; \<open>isoOf t\<close> is
  \<open>new Date(t).toISOString()\<close> for a time value \<open>t\<close>; \<open>clockAtId\<close> and
  \<open>clockAtGenerated\<close> are the two readings of the clock, \<open>Date.now()\<close> and
  \<open>new Date()\<close>.
\<close>

record runtime =
  jsonParse :: "string \<Rightarrow> json option"
  jsonStringify :: "json \<Rightarrow> string"
  timeOf :: "string \<Rightarrow> int option"
  isoOf :: "int \<Rightarrow> string"
  clockAtId :: nat
  clockAtGenerated :: int

text \<open>\<open>Array.prototype.join\<close>\<close>

fun join :: "string \<Rightarrow> string list \<Rightarrow> string" where
  "join separator [] = []"
| "join separator [x] = x"
| "join separator (x # y # rest) = x @ separator @ join separator (y # rest)"

text \<open>\<open>reports.map((report, index) => ...)\<close> of \<open>generateCombinedContent\<close>\<close>

fun combinedSections :: "host \<Rightarrow> nat \<Rightarrow> ReportData list \<Rightarrow> string list" where
  "combinedSections host index [] = []"
| "combinedSections host index (report # rest) =
     (
      ''## Report '' @ showNat (index + 1) @ '': '' @ title report @ [NL, NL]
      @ ''**Type:** '' @ report_type report @ [NL] @ ''**Generated:** ''
      @ localeDate host (generated_at report) @ [NL, NL] @ ''### Summary'' @ [NL]
      @ summary report @ [NL, NL] @ ''### Key Highlights'' @ [NL] @ highlights report
      @ [NL, NL] @ ''### Content'' @ [NL] @ content report @ [NL, NL] @ ''### Suggestions''
      @ [NL] @ suggestions report @ [NL, NL] @ ''---'' @ [NL, NL])
     # combinedSections host (index + 1) rest"

definition generateCombinedContent :: "host \<Rightarrow> ReportData list \<Rightarrow> string" where
  "generateCombinedContent host reports = join [NL] (combinedSections host 0 reports)"

definition generateCombinedSummary :: "ReportData list \<Rightarrow> string" where
  "generateCombinedSummary reports =
     ''This combined report includes '' @ showNat (length reports)
     @ '' individual reports covering various periods and activities. Each report has been analyzed and compiled with AI-generated insights and recommendations.''"

text \<open>
  \<open>Boolean(v)\<close> for a JSON value: \<open>null\<close>, \<open>false\<close>, zero and the empty string are
  falsy, and every array and every object is truthy.
\<close>

fun truthy :: "json \<Rightarrow> bool" where
  "truthy JNull = False"
| "truthy (JBool b) = b"
| "truthy (JNumber n) = (n \<noteq> 0)"
| "truthy (JString s) = (s \<noteq> [])"
| "truthy (JArray vs) = True"
| "truthy (JObject members) = True"

text \<open>\<open>Array.prototype.flat\<close>, of depth 1: an element that is an array gives its elements.\<close>

fun flat :: "json list \<Rightarrow> json list" where
  "flat [] = []"
| "flat (JArray vs # rest) = vs @ flat rest"
| "flat (v # rest) = v # flat rest"

definition generateCombinedHighlights :: "runtime \<Rightarrow> ReportData list \<Rightarrow> string" where
  "generateCombinedHighlights rt reports =
     (let allHighlights =
            filter truthy
              (flat (map (\<lambda>report.
                       case jsonParse rt (highlights report) of
                         Some parsed \<Rightarrow> parsed
                       | None \<Rightarrow> JArray [JString (highlights report)])
                     reports))
      in jsonStringify rt (JArray (take 10 allHighlights)))"

definition generateCombinedSuggestions :: "ReportData list \<Rightarrow> string" where
  "generateCombinedSuggestions reports =
     (let joined = join [NL, NL] (filter (\<lambda>s. s \<noteq> []) (map suggestions reports))
      in
      ''Based on analysis of '' @ showNat (length reports) @ '' reports:'' @ [NL, NL]
      @ joined)"

text \<open>
  \<open>Math.min\<close> of no number is \<open>Infinity\<close> (\<open>Math.max\<close>, \<open>-Infinity\<close>) and of numbers
  with a \<open>NaN\<close> among them is \<open>NaN\<close>; \<open>toISOString\<close> throws a \<open>RangeError\<close> on a date
  of either. Otherwise the extreme is the time value of one of the dates.
\<close>

definition isoOfExtreme :: "runtime \<Rightarrow> (int \<Rightarrow> int \<Rightarrow> int) \<Rightarrow> string list \<Rightarrow> thrown + string" where
  "isoOfExtreme rt pick dateTexts =
     (case those (map (timeOf rt) (filter (\<lambda>s. s \<noteq> []) dateTexts)) of
        None \<Rightarrow> Inl (JsError ''Invalid time value'')
      | Some [] \<Rightarrow> Inl (JsError ''Invalid time value'')
      | Some (first # later) \<Rightarrow> Inr (isoOf rt (fold pick later first)))"

definition getEarliestDate :: "runtime \<Rightarrow> ReportData list \<Rightarrow> thrown + string" where
  "getEarliestDate rt reports =
     isoOfExtreme rt min
       (map (\<lambda>report.
               case period_start report of
                 Some s \<Rightarrow> (if s \<noteq> [] then s else generated_at report)
               | None \<Rightarrow> generated_at report)
          reports)"

definition getLatestDate :: "runtime \<Rightarrow> ReportData list \<Rightarrow> thrown + string" where
  "getLatestDate rt reports =
     isoOfExtreme rt max
       (map (\<lambda>report.
               case period_end report of
                 Some s \<Rightarrow> (if s \<noteq> [] then s else generated_at report)
               | None \<Rightarrow> generated_at report)
          reports)"

text \<open>
  The object literal at the head of \<open>exportCombinedReport\<close>: its fields are computed in
  the order in which they are written, and what one of them throws is thrown by the
  whole.
\<close>

definition combinedReport ::
  "host \<Rightarrow> runtime \<Rightarrow> ReportData list \<Rightarrow> string \<Rightarrow> thrown + ReportData" where
  "combinedReport host rt reports combinedTitle =
     (let combinedId = ''combined-'' @ showNat (clockAtId rt);
          combinedContent = generateCombinedContent host reports;
          combinedSummary = generateCombinedSummary reports;
          combinedHighlights = generateCombinedHighlights rt reports;
          combinedSuggestions = generateCombinedSuggestions reports;
          generatedAt = isoOf rt (clockAtGenerated rt)
      in case (if length reports > 0 then map_sum id Some (getEarliestDate rt reports)
               else Inr None) of
           Inl e \<Rightarrow> Inl e
         | Inr periodStart \<Rightarrow>
             (case (if length reports > 0 then map_sum id Some (getLatestDate rt reports)
                    else Inr None) of
                Inl e \<Rightarrow> Inl e
              | Inr periodEnd \<Rightarrow>
                  Inr \<lparr>rid = combinedId, title = combinedTitle, report_type = ''combined'',
                       content = combinedContent, summary = combinedSummary,
                       highlights = combinedHighlights, suggestions = combinedSuggestions,
                       generated_at = generatedAt, period_start = periodStart,
                       period_end = periodEnd, record_count = None\<rparr>))"

text \<open>
  \<open>exportCombinedReport\<close>: the combined report, then the export of it in the format
  asked for. The title is \<open>Combined Report\<close> when none is given.
\<close>

definition exportCombinedReport ::
  "exporters \<Rightarrow> host \<Rightarrow> runtime \<Rightarrow> ReportData list \<Rightarrow> export_format \<Rightarrow> string option
   \<Rightarrow> ExportTemplate option \<Rightarrow> thrown option" where
  "exportCombinedReport env host rt reports fmt combinedTitle t =
     (case combinedReport host rt reports
             (case combinedTitle of None \<Rightarrow> ''Combined Report'' | Some given \<Rightarrow> given) of
        Inl e \<Rightarrow> Some e
      | Inr combined \<Rightarrow> exportReport env fmt combined t)"

text \<open>
  A runtime to run the combination on concrete inputs: it parses and prints the JSON
  texts that the inputs below need, and takes every date text for the time 0.
\<close>

definition fixtureRuntime :: runtime where
  \<open>fixtureRuntime =
     \<lparr>jsonParse = (\<lambda>s.
        if s = ''["a","b"]'' then Some (JArray [JString ''a'', JString ''b''])
        else if s = ''"c"'' then Some (JString ''c'')
        else if s = ''["a","b","c"]''
          then Some (JArray [JString ''a'', JString ''b'', JString ''c''])
        else if s = ''[null,"a",false,0,"","b"]''
          then Some (JArray [JNull, JString ''a'', JBool False, JNumber 0, JString [],
                 JString ''b''])
        else if s = ''["one","two","three","four","five","six","seven"]''
          then Some (JArray (map JString [''one'', ''two'', ''three'', ''four'', ''five'', ''six'', ''seven'']))
        else if s = ''["eight","nine","ten","eleven","twelve"]''
          then Some (JArray (map JString [''eight'', ''nine'', ''ten'', ''eleven'', ''twelve'']))
        else None),
      jsonStringify = (\<lambda>v.
        if v = JArray [JString ''a'', JString ''b'', JString ''c''] then ''["a","b","c"]''
        else if v = JArray [JString ''a'', JString ''b''] then ''["a","b"]''
        else if v = JArray (map JString
                  [''one'', ''two'', ''three'', ''four'', ''five'', ''six'', ''seven'', ''eight'', ''nine'', ''ten''])
          then ''["one","two","three","four","five","six","seven","eight","nine","ten"]''
        else if v = JArray [] then ''[]'' else ''null''),
      timeOf = (\<lambda>s. Some 0), isoOf = (\<lambda>t. ''1970-01-01T00:00:00.000Z''),
      clockAtId = 0, clockAtGenerated = 0\<rparr>\<close>

section \<open>Results about validation\<close>

lemma showNat_digit: "n < 10 \<Longrightarrow> showNat n = [''0123456789'' ! n]"
  by (subst showNat.simps) simp

lemma showNat_Suc_0: "showNat (Suc 0) = ''1''"
  by (subst showNat.simps) simp

lemma validateEach_appends:
  \<open>validateEach i rs errs
   = errs @ concat (map (\<lambda>(index, report).
       (if trim (title report) = []
        then [''Report '' @ showNat (index + 1) @ '' has no title''] else [])
       @ (if trim (content report) = []
          then [''Report "'' @ title report @ ''" has no content''] else []))
     (zip [i ..< i + length rs] rs))\<close>
proof (induction rs arbitrary: i errs)
  case Nil
  show ?case by simp
next
  case (Cons r rs)
  have "[i ..< i + length (r # rs)] = i # [Suc i ..< Suc i + length rs]"
    using upt_conv_Cons [of i "i + length (r # rs)"] by simp
  then show ?case
    using Cons.IH [of "Suc i"] by (simp add: Let_def)
qed

lemma no_problems:
  \<open>\<forall>r \<in> set rs. trim (title r) \<noteq> [] \<and> trim (content r) \<noteq> [] \<Longrightarrow>
   concat (map (\<lambda>(index, report).
       (if trim (title report) = []
        then [''Report '' @ showNat (index + 1) @ '' has no title''] else [])
       @ (if trim (content report) = []
          then [''Report "'' @ title report @ ''" has no content''] else []))
     (zip ns rs)) = []\<close>
  by (auto dest: set_zip_rightD)

text \<open>
  Claim C9. Validation is a total function into the lists of texts: it returns and never
  fails. The list it returns holds exactly the problems that apply, in this order: the
  error about the empty selection when there is no report; the error about the limit
  when there are more than 50 reports; then, for each report in its turn, the error
  about its title, with the position of the report counted from 1, when the trimmed
  title is empty, and the error about its content, with its title, when the trimmed
  content is empty. So an empty selection gives exactly the one error about the empty
  selection; more than 50 reports (so also 51) with non-blank titles and contents give
  exactly the one error about the limit; a single report whose title and content are
  both blank gives exactly two errors; and 1 to 50 reports with non-blank titles and
  contents give the empty list.
\<close>

theorem validateReportsForExport_cases:
  \<open>validateReportsForExport reports
     = (if length reports = 0 then [''No reports selected for export''] else [])
       @ (if length reports > 50
          then [''Too many reports selected. Maximum 50 reports allowed per batch'']
          else [])
       @ concat (map (\<lambda>(index, report).
           (if trim (title report) = []
            then [''Report '' @ showNat (index + 1) @ '' has no title''] else [])
           @ (if trim (content report) = []
              then [''Report "'' @ title report @ ''" has no content''] else []))
         (zip [0 ..< length reports] reports))
   \<and> validateReportsForExport [] = [''No reports selected for export'']
   \<and> (length many > 50
        \<and> (\<forall>r \<in> set many. trim (title r) \<noteq> [] \<and> trim (content r) \<noteq> [])
      \<longrightarrow> validateReportsForExport many
            = [''Too many reports selected. Maximum 50 reports allowed per batch''])
   \<and> (trim (title blank) = [] \<and> trim (content blank) = []
      \<longrightarrow> validateReportsForExport [blank]
            = [''Report 1 has no title'',
               ''Report "'' @ title blank @ ''" has no content''])
   \<and> (1 \<le> length some \<and> length some \<le> 50
        \<and> (\<forall>r \<in> set some. trim (title r) \<noteq> [] \<and> trim (content r) \<noteq> [])
      \<longrightarrow> validateReportsForExport some = [])\<close>
proof -
  have general: \<open>validateReportsForExport rs
     = (if length rs = 0 then [''No reports selected for export''] else [])
       @ (if length rs > 50
          then [''Too many reports selected. Maximum 50 reports allowed per batch'']
          else [])
       @ concat (map (\<lambda>(index, report).
           (if trim (title report) = []
            then [''Report '' @ showNat (index + 1) @ '' has no title''] else [])
           @ (if trim (content report) = []
              then [''Report "'' @ title report @ ''" has no content''] else []))
         (zip [0 ..< length rs] rs))\<close> for rs
    using validateEach_appends [of 0 rs]
    by (simp add: validateReportsForExport_def Let_def)
  have none: "validateReportsForExport [] = [''No reports selected for export'']"
    by (simp add: general)
  have limit: "validateReportsForExport many
      = [''Too many reports selected. Maximum 50 reports allowed per batch'']"
    if "length many > 50
      \<and> (\<forall>r \<in> set many. trim (title r) \<noteq> [] \<and> trim (content r) \<noteq> [])"
    using that no_problems [of many "[0 ..< length many]"]
    by (simp only: general) auto
  have two: \<open>validateReportsForExport [blank]
      = [''Report 1 has no title'', ''Report "'' @ title blank @ ''" has no content'']\<close>
    if "trim (title blank) = [] \<and> trim (content blank) = []"
    using that by (simp add: general showNat_Suc_0)
  have valid: "validateReportsForExport some = []"
    if "1 \<le> length some \<and> length some \<le> 50
      \<and> (\<forall>r \<in> set some. trim (title r) \<noteq> [] \<and> trim (content r) \<noteq> [])"
    using that no_problems [of some "[0 ..< length some]"]
    by (simp only: general) auto
  show ?thesis
    using general [of reports] none limit two valid by blast
qed

theorem validateReportsForExport_cases_witness:
  \<open>validateReportsForExport [sampleReport, blankReport, sampleReport\<lparr>content := ''  ''\<rparr>]
     = [''Report 2 has no title'', ''Report " " has no content'',
        ''Report "Weekly" has no content'']
   \<and> length (replicate 51 sampleReport) > 50
   \<and> validateReportsForExport (replicate 51 sampleReport)
       = [''Too many reports selected. Maximum 50 reports allowed per batch'']
   \<and> trim (title blankReport) = [] \<and> trim (content blankReport) = []
   \<and> validateReportsForExport [blankReport]
       = [''Report 1 has no title'', ''Report " " has no content'']
   \<and> validateReportsForExport [sampleReport] = []\<close>
  using validateReportsForExport_cases
    [of "[sampleReport, blankReport, sampleReport\<lparr>content := ''  ''\<rparr>]"
      "replicate 51 sampleReport" blankReport "[sampleReport]"]
  by (simp add: sampleReport_def blankReport_def trim_def isWhiteSpace_def showNat_digit
      upt_conv_Cons)

section \<open>Results about the page loop\<close>




section \<open>Results about variable substitution\<close>














section \<open>Results about the renderers\<close>





lemma sortCustomSections_fields:
  "header (sortCustomSections t) = header t"
  "footer (sortCustomSections t) = footer t"
  "variables (sortCustomSections t) = variables t"
  "styling (sortCustomSections t) = styling t"
  "showExecutiveSummary (sections (sortCustomSections t)) = showExecutiveSummary (sections t)"
  "showHighlights (sections (sortCustomSections t)) = showHighlights (sections t)"
  "showDetailedContent (sections (sortCustomSections t)) = showDetailedContent (sections t)"
  "showRecommendations (sections (sortCustomSections t)) = showRecommendations (sections t)"
  "customSections (sections (sortCustomSections t))
   = sort_key section_order (customSections (sections t))"
  by (simp_all add: sortCustomSections_def)








lemma sorted_sortCustomSections:
  "sorted (map section_order (customSections (sections (sortCustomSections template))))"
  by (simp add: sortCustomSections_fields)
















section \<open>Results about the batch export\<close>

lemma runTask_accounting:
  assumes "quietProgress options" and "runTask env options n run (g, r) = Inr run'"
  shows "successful run' = successful run + (if exportFails env options r then 0 else 1)
    \<and> failed run' = failed run + (if exportFails env options r then 1 else 0)
    \<and> errors run' = errors run @ (if exportFails env options r then [errorEntry env options r] else [])
    \<and> errorCalls run' = errorCalls run
         @ (if exportFails env options r \<and> onError options \<noteq> None then [errorEntry env options r] else [])
    \<and> exportedReports run' = exportedReports run @ (if exportFails env options r then [] else [r])
    \<and> batches run' = batches run"
  using assms
  by (auto simp: quietProgress_def runTask_def tryExport_def callProgress_def catchExport_def
      Let_def exportFails_def errorEntry_def split: option.splits sum.splits thrown.splits)

lemma runTask_returns:
  assumes "quietProgress options" and "quietError options"
  shows "\<exists>run'. runTask env options n run (g, r) = Inr run'"
  using assms
  by (auto simp: quietProgress_def quietError_def runTask_def tryExport_def callProgress_def
      catchExport_def Let_def split: option.splits sum.splits thrown.splits)

lemma runTasks_accounting:
  assumes "quietProgress options" and "runTasks env options n run ts = Inr run'"
  shows "successful run' = successful run
          + length (filter (\<lambda>r. \<not> exportFails env options r) (map snd ts))
    \<and> failed run' = failed run + length (filter (exportFails env options) (map snd ts))
    \<and> errors run' = errors run
          @ map (errorEntry env options) (filter (exportFails env options) (map snd ts))
    \<and> errorCalls run' = errorCalls run
          @ (if onError options \<noteq> None
             then map (errorEntry env options) (filter (exportFails env options) (map snd ts))
             else [])
    \<and> exportedReports run' = exportedReports run
          @ filter (\<lambda>r. \<not> exportFails env options r) (map snd ts)
    \<and> batches run' = batches run"
  using assms(2)
proof (induction ts arbitrary: run)
  case Nil
  then show ?case by simp
next
  case (Cons t ts)
  obtain g r where t: "t = (g, r)" by (cases t)
  from Cons.prems obtain run1 where one: "runTask env options n run (g, r) = Inr run1"
    and rest: "runTasks env options n run1 ts = Inr run'"
    by (auto simp: t split: sum.splits)
  from runTask_accounting [OF assms(1) one]
  have s1: "successful run1 = successful run + (if exportFails env options r then 0 else 1)"
    and f1: "failed run1 = failed run + (if exportFails env options r then 1 else 0)"
    and e1: "errors run1 = errors run
        @ (if exportFails env options r then [errorEntry env options r] else [])"
    and c1: "errorCalls run1 = errorCalls run
        @ (if exportFails env options r \<and> onError options \<noteq> None
           then [errorEntry env options r] else [])"
    and x1: "exportedReports run1 = exportedReports run
        @ (if exportFails env options r then [] else [r])"
    and b1: "batches run1 = batches run"
    by simp_all
  from Cons.IH [OF rest]
  have s2: "successful run' = successful run1
          + length (filter (\<lambda>r. \<not> exportFails env options r) (map snd ts))"
    and f2: "failed run' = failed run1 + length (filter (exportFails env options) (map snd ts))"
    and e2: "errors run' = errors run1
          @ map (errorEntry env options) (filter (exportFails env options) (map snd ts))"
    and c2: "errorCalls run' = errorCalls run1
          @ (if onError options \<noteq> None
             then map (errorEntry env options) (filter (exportFails env options) (map snd ts))
             else [])"
    and x2: "exportedReports run' = exportedReports run1
          @ filter (\<lambda>r. \<not> exportFails env options r) (map snd ts)"
    and b2: "batches run' = batches run1"
    by simp_all
  show ?case
    using s1 f1 e1 c1 x1 b1 s2 f2 e2 c2 x2 b2 t by simp
qed

lemma runTasks_returns:
  assumes "quietProgress options" and "quietError options"
  shows "\<exists>run'. runTasks env options n run ts = Inr run'"
proof (induction ts arbitrary: run)
  case Nil
  show ?case by simp
next
  case (Cons t ts)
  obtain g r where t: "t = (g, r)" by (cases t)
  from runTask_returns [OF assms, of env n run g r]
  obtain run1 where "runTask env options n run (g, r) = Inr run1" by blast
  then show ?case
    using Cons.IH [of run1] t by simp
qed

lemma filter_length_mset:
  "mset xs = mset ys \<Longrightarrow> length (filter Q xs) = length (filter Q ys)"
  by (metis mset_filter size_mset)

lemma map_filter_mset:
  "mset xs = mset ys \<Longrightarrow> mset (map f (filter Q xs)) = mset (map f (filter Q ys))"
  by (metis mset_filter mset_map)

lemma settled_reports:
  assumes "fairSchedule settle"
  shows "mset (map snd (settle (zip [i ..< i + length b] b))) = mset b"
proof -
  have "mset (map snd (settle (zip [i ..< i + length b] b)))
      = image_mset snd (mset (settle (zip [i ..< i + length b] b)))"
    by simp
  also have "\<dots> = image_mset snd (mset (zip [i ..< i + length b] b))"
    using assms by (simp add: fairSchedule_def)
  also have "\<dots> = mset (map snd (zip [i ..< i + length b] b))"
    by (rule mset_map [symmetric])
  also have "\<dots> = mset b"
    by (simp add: map_snd_zip)
  finally show ?thesis .
qed

lemma batchLoop_step:
  assumes "i < length reports"
  shows "batchLoop env settle options reports i run =
     (case runTasks env options (length reports)
             (run\<lparr>batches := batches run
                @ [take (effectiveBatchSize options) (drop i reports)]\<rparr>)
             (settle (zip [i ..< i + length (take (effectiveBatchSize options) (drop i reports))]
                        (take (effectiveBatchSize options) (drop i reports)))) of
        Inl e \<Rightarrow> Some (Inl e)
      | Inr run' \<Rightarrow>
          batchLoop env settle options reports (i + effectiveBatchSize options) run')"
  using assms by (subst batchLoop.simps) (simp add: Let_def)


lemma batchLoop_returns:
  assumes "quietProgress options" and "quietError options"
    and "0 < effectiveBatchSize options"
  shows "\<exists>run'. batchLoop env settle options reports i run = Some (Inr run')"
proof (induction "length reports - i" arbitrary: i run rule: less_induct)
  case less
  show ?case
  proof (cases "i < length reports")
    case False
    then show ?thesis by (subst batchLoop.simps) simp
  next
    case True
    have smaller: "length reports - (i + effectiveBatchSize options) < length reports - i"
      using True assms(3) by simp
    obtain run1 where "runTasks env options (length reports)
             (run\<lparr>batches := batches run
                @ [take (effectiveBatchSize options) (drop i reports)]\<rparr>)
             (settle (zip [i ..< i + length (take (effectiveBatchSize options) (drop i reports))]
                        (take (effectiveBatchSize options) (drop i reports)))) = Inr run1"
      using runTasks_returns [OF assms(1,2)] by blast
    then show ?thesis
      using less.hyps [OF smaller, of run1]
      by (simp add: batchLoop_step [OF True])
  qed
qed

lemma batchLoop_accounting:
  assumes q: "quietProgress options" and fair: "fairSchedule settle"
    and pos: "0 < effectiveBatchSize options"
    and loop: "batchLoop env settle options reports i run = Some (Inr run')"
  shows "successful run' = successful run
          + length (filter (\<lambda>r. \<not> exportFails env options r) (drop i reports))
    \<and> failed run' = failed run + length (filter (exportFails env options) (drop i reports))
    \<and> length (errors run') = length (errors run)
          + length (filter (exportFails env options) (drop i reports))
    \<and> mset (errors run') = mset (errors run)
          + mset (map (errorEntry env options) (filter (exportFails env options) (drop i reports)))
    \<and> mset (errorCalls run') = mset (errorCalls run)
          + (if onError options \<noteq> None
             then mset (map (errorEntry env options)
                    (filter (exportFails env options) (drop i reports)))
             else {#})
    \<and> mset (exportedReports run') = mset (exportedReports run)
          + mset (filter (\<lambda>r. \<not> exportFails env options r) (drop i reports))
    \<and> concat (batches run') = concat (batches run) @ drop i reports
    \<and> map length (batches run') = map length (batches run)
          @ replicate ((length reports - i) div effectiveBatchSize options)
              (effectiveBatchSize options)
          @ (if (length reports - i) mod effectiveBatchSize options = 0 then []
             else [(length reports - i) mod effectiveBatchSize options])"
  using loop
proof (induction "length reports - i" arbitrary: i run rule: less_induct)
  case less
  let ?size = "effectiveBatchSize options"
  let ?fails = "exportFails env options"
  let ?ok = "\<lambda>r. \<not> exportFails env options r"
  let ?entry = "errorEntry env options"
  show ?case
  proof (cases "i < length reports")
    case False
    with less.prems have "run' = run"
      by (subst (asm) batchLoop.simps) simp
    with False show ?thesis by simp
  next
    case True
    define b where "b = take ?size (drop i reports)"
    define run0 where "run0 = run\<lparr>batches := batches run @ [b]\<rparr>"
    define ts where "ts = settle (zip [i ..< i + length b] b)"
    have split: "drop i reports = b @ drop (i + ?size) reports"
      unfolding b_def by (metis add.commute append_take_drop_id drop_drop)
    have lenb: "length b = min ?size (length reports - i)"
      unfolding b_def by simp
    have rs: "mset (map snd ts) = mset b"
      unfolding ts_def using fair by (rule settled_reports)
    from less.prems obtain run1
      where tasks: "runTasks env options (length reports) run0 ts = Inr run1"
        and later: "batchLoop env settle options reports (i + ?size) run1 = Some (Inr run')"
      unfolding batchLoop_step [OF True] b_def [symmetric] run0_def [symmetric]
        ts_def [symmetric]
      by (auto split: sum.splits)
    from runTasks_accounting [OF q tasks]
    have s1: "successful run1 = successful run0 + length (filter ?ok (map snd ts))"
      and f1: "failed run1 = failed run0 + length (filter ?fails (map snd ts))"
      and e1: "errors run1 = errors run0 @ map ?entry (filter ?fails (map snd ts))"
      and c1: "errorCalls run1 = errorCalls run0
          @ (if onError options \<noteq> None then map ?entry (filter ?fails (map snd ts)) else [])"
      and x1: "exportedReports run1 = exportedReports run0 @ filter ?ok (map snd ts)"
      and b1: "batches run1 = batches run0"
      by simp_all
    have smaller: "length reports - (i + ?size) < length reports - i"
      using True pos by simp
    from less.hyps [OF smaller later]
    have s2: "successful run' = successful run1
          + length (filter ?ok (drop (i + ?size) reports))"
      and f2: "failed run' = failed run1 + length (filter ?fails (drop (i + ?size) reports))"
      and l2: "length (errors run') = length (errors run1)
          + length (filter ?fails (drop (i + ?size) reports))"
      and e2: "mset (errors run') = mset (errors run1)
          + mset (map ?entry (filter ?fails (drop (i + ?size) reports)))"
      and c2: "mset (errorCalls run') = mset (errorCalls run1)
          + (if onError options \<noteq> None
             then mset (map ?entry (filter ?fails (drop (i + ?size) reports))) else {#})"
      and x2: "mset (exportedReports run') = mset (exportedReports run1)
          + mset (filter ?ok (drop (i + ?size) reports))"
      and k2: "concat (batches run') = concat (batches run1) @ drop (i + ?size) reports"
      and m2: "map length (batches run') = map length (batches run1)
          @ replicate ((length reports - (i + ?size)) div ?size) ?size
          @ (if (length reports - (i + ?size)) mod ?size = 0 then []
             else [(length reports - (i + ?size)) mod ?size])"
      by simp_all
    have S: "successful run' = successful run + length (filter ?ok (drop i reports))"
      using s1 s2 filter_length_mset [OF rs, of ?ok] by (simp add: split run0_def)
    have F: "failed run' = failed run + length (filter ?fails (drop i reports))"
      using f1 f2 filter_length_mset [OF rs, of ?fails] by (simp add: split run0_def)
    have L: "length (errors run') = length (errors run) + length (filter ?fails (drop i reports))"
      using e1 l2 filter_length_mset [OF rs, of ?fails] by (simp add: split run0_def)
    have E: "mset (errors run') = mset (errors run)
          + mset (map ?entry (filter ?fails (drop i reports)))"
      using e1 e2 map_filter_mset [OF rs, of ?entry ?fails] by (simp add: split run0_def)
    have C: "mset (errorCalls run') = mset (errorCalls run)
          + (if onError options \<noteq> None
             then mset (map ?entry (filter ?fails (drop i reports))) else {#})"
      using c1 c2 map_filter_mset [OF rs, of ?entry ?fails] by (simp add: split run0_def)
    have X: "mset (exportedReports run') = mset (exportedReports run)
          + mset (filter ?ok (drop i reports))"
      using x1 x2 map_filter_mset [OF rs, of "\<lambda>r. r" ?ok] by (simp add: split run0_def)
    have K: "concat (batches run') = concat (batches run) @ drop i reports"
      using k2 b1 by (simp add: split run0_def)
    have M: "map length (batches run') = map length (batches run)
          @ replicate ((length reports - i) div ?size) ?size
          @ (if (length reports - i) mod ?size = 0 then [] else [(length reports - i) mod ?size])"
    proof (cases "?size \<le> length reports - i")
      case True
      then have d: "(length reports - i) div ?size = Suc ((length reports - (i + ?size)) div ?size)"
        using pos by (metis diff_diff_left le_div_geq)
      have m: "(length reports - i) mod ?size = (length reports - (i + ?size)) mod ?size"
        using True by (metis diff_diff_left le_mod_geq)
      have "length b = ?size" using True lenb by simp
      then show ?thesis
        using m2 b1 d m by (simp add: run0_def)
    next
      case False
      then have small: "length reports - i < ?size" by simp
      then have "length reports - (i + ?size) = 0" by simp
      moreover have "length b = length reports - i" using small lenb by simp
      moreover have "0 < length reports - i" using \<open>i < length reports\<close> by simp
      ultimately show ?thesis
        using m2 b1 small by (simp add: run0_def)
    qed
    show ?thesis
      using S F L E C X K M by blast
  qed
qed

lemma batchExport_accounting:
  assumes "quietProgress options" and "fairSchedule settle"
    and "0 < effectiveBatchSize options"
    and "batchExport env settle reports options = Some (Inr run)"
  shows "successful run = length (filter (\<lambda>r. \<not> exportFails env options r) reports)
    \<and> failed run = length (filter (exportFails env options) reports)
    \<and> length (errors run) = length (filter (exportFails env options) reports)
    \<and> mset (errors run)
        = mset (map (errorEntry env options) (filter (exportFails env options) reports))
    \<and> mset (errorCalls run)
        = (if onError options \<noteq> None
           then mset (map (errorEntry env options) (filter (exportFails env options) reports))
           else {#})
    \<and> mset (exportedReports run)
        = mset (filter (\<lambda>r. \<not> exportFails env options r) reports)
    \<and> concat (batches run) = reports
    \<and> map length (batches run)
        = replicate (length reports div effectiveBatchSize options) (effectiveBatchSize options)
          @ (if length reports mod effectiveBatchSize options = 0 then []
             else [length reports mod effectiveBatchSize options])"
  using batchLoop_accounting [OF assms(1,2,3), of env reports 0 emptyRun run] assms(4)
  by (simp add: batchExport_def emptyRun_def split del: if_split cong: if_cong)

lemma filter_only_index:
  assumes "k < length xs" and "\<forall>j < length xs. P (xs ! j) \<longleftrightarrow> j = k"
  shows "filter P xs = [xs ! k]"
    and "filter (\<lambda>x. \<not> P x) xs = take k xs @ drop (Suc k) xs"
proof -
  have parts: "xs = take k xs @ xs ! k # drop (Suc k) xs"
    using assms(1) by (rule id_take_nth_drop)
  have before: "\<forall>x \<in> set (take k xs). \<not> P x"
  proof
    fix x assume "x \<in> set (take k xs)"
    then obtain j where "j < length (take k xs)" and "take k xs ! j = x"
      by (auto simp: in_set_conv_nth)
    then have "j < k" and "j < length xs" and "xs ! j = x" using assms(1) by simp_all
    then show "\<not> P x" using assms(2) by auto
  qed
  have after: "\<forall>x \<in> set (drop (Suc k) xs). \<not> P x"
  proof
    fix x assume "x \<in> set (drop (Suc k) xs)"
    then obtain j where "j < length (drop (Suc k) xs)" and "drop (Suc k) xs ! j = x"
      by (auto simp: in_set_conv_nth)
    then have "Suc k + j < length xs" and "xs ! (Suc k + j) = x" by simp_all
    then show "\<not> P x" using assms(2) by auto
  qed
  have here: "P (xs ! k)" using assms by simp
  have f1: "filter P (take k xs) = []" using before by (simp add: filter_empty_conv)
  have f2: "filter P (drop (Suc k) xs) = []" using after by (simp add: filter_empty_conv)
  have g1: "filter (\<lambda>x. \<not> P x) (take k xs) = take k xs" using before by (simp add: filter_id_conv)
  have g2: "filter (\<lambda>x. \<not> P x) (drop (Suc k) xs) = drop (Suc k) xs"
    using after by (simp add: filter_id_conv)
  have "filter P xs = filter P (take k xs @ xs ! k # drop (Suc k) xs)"
    using parts by simp
  then show "filter P xs = [xs ! k]"
    using f1 f2 here by simp
  have "filter (\<lambda>x. \<not> P x) xs = filter (\<lambda>x. \<not> P x) (take k xs @ xs ! k # drop (Suc k) xs)"
    using parts by simp
  then show "filter (\<lambda>x. \<not> P x) xs = take k xs @ drop (Suc k) xs"
    using g1 g2 here by simp
qed










text \<open>
  Claim C2, as the code has it. When the callbacks do not throw and the export fails for
  the report at exactly one position of the list, \<open>batchExport\<close> returns a result with
  \<open>failed = 1\<close> and \<open>successful = n - 1\<close>; \<open>errors\<close> has exactly one entry, with the id
  of that report and the message of the error; \<open>onError\<close>, when given, is called exactly
  once, with that id and that message; and every other report is exported.
\<close>

theorem batchExport_contains_one_failure:
  assumes "quietProgress options" and "quietError options" and "fairSchedule settle"
    and "1 \<le> effectiveBatchSize options"
    and "k < length reports"
    and "\<forall>j < length reports. exportFails env options (reports ! j) \<longleftrightarrow> j = k"
  shows "\<exists>run. batchExport env settle reports options = Some (Inr run)
    \<and> failed run = 1
    \<and> successful run = length reports - 1
    \<and> errors run = [errorEntry env options (reports ! k)]
    \<and> fst (errorEntry env options (reports ! k)) = rid (reports ! k)
    \<and> errorCalls run = (if onError options \<noteq> None
                         then [errorEntry env options (reports ! k)] else [])
    \<and> mset (exportedReports run) = mset reports - {#reports ! k#}"
proof -
  have pos: "0 < effectiveBatchSize options" using assms(4) by simp
  note bad = filter_only_index(1) [OF assms(5,6)]
  note good = filter_only_index(2) [OF assms(5,6)]
  from batchLoop_returns [OF assms(1,2) pos, of env settle reports 0 emptyRun]
  obtain run where run: "batchExport env settle reports options = Some (Inr run)"
    by (auto simp: batchExport_def)
  from batchExport_accounting [OF assms(1,3) pos run]
  have s: "successful run = length (filter (\<lambda>r. \<not> exportFails env options r) reports)"
    and f: "failed run = length (filter (exportFails env options) reports)"
    and e: "mset (errors run)
        = mset (map (errorEntry env options) (filter (exportFails env options) reports))"
    and c: "mset (errorCalls run)
        = (if onError options \<noteq> None
           then mset (map (errorEntry env options) (filter (exportFails env options) reports))
           else {#})"
    and x: "mset (exportedReports run)
        = mset (filter (\<lambda>r. \<not> exportFails env options r) reports)"
    by simp_all
  have F: "failed run = 1" using f bad by simp
  have S: "successful run = length reports - 1"
    using s good assms(5) by simp
  have E: "errors run = [errorEntry env options (reports ! k)]"
    using e bad by (simp add: mset_single_iff)
  have I: "fst (errorEntry env options (reports ! k)) = rid (reports ! k)"
    by (simp add: errorEntry_def)
  have C: "errorCalls run = (if onError options \<noteq> None
                         then [errorEntry env options (reports ! k)] else [])"
    using c bad by (simp add: mset_single_iff split: if_splits)
  have whole: "mset reports = mset (take k reports @ drop (Suc k) reports) + {#reports ! k#}"
    using id_take_nth_drop [OF assms(5)]
    by (metis add_mset_add_single mset.simps(2) mset_append union_mset_add_mset_right)
  have X: "mset (exportedReports run) = mset reports - {#reports ! k#}"
    using x good whole by simp
  show ?thesis
    using run F S E I C X by blast
qed

theorem batchExport_contains_one_failure_witness:
  "\<exists>run. batchExport sampleExporters rev
           [sampleReport, blankReport, sampleReport\<lparr>rid := ''r3''\<rparr>] sampleOptions
         = Some (Inr run)
    \<and> failed run = 1
    \<and> successful run = 2
    \<and> errors run = [(''r2'', ''Failed to export Markdown. Please try again.'')]
    \<and> errorCalls run = [(''r2'', ''Failed to export Markdown. Please try again.'')]
    \<and> mset (exportedReports run) = {#sampleReport, sampleReport\<lparr>rid := ''r3''\<rparr>#}"
proof -
  let ?reports = "[sampleReport, blankReport, sampleReport\<lparr>rid := ''r3''\<rparr>]"
  have quiet: "quietProgress sampleOptions"
    by (simp add: quietProgress_def sampleOptions_def)
  have quiet': "quietError sampleOptions"
    by (simp add: quietError_def sampleOptions_def)
  have fair: "fairSchedule rev"
    by (simp add: fairSchedule_def)
  have one: "1 \<le> effectiveBatchSize sampleOptions"
    by (simp add: effectiveBatchSize_def sampleOptions_def)
  have k: "(1::nat) < length ?reports"
    by simp
  have only: "\<forall>j < length ?reports.
      exportFails sampleExporters sampleOptions (?reports ! j) \<longleftrightarrow> j = 1"
    by (auto simp: less_Suc_eq exportFails_def sampleExporters_def sampleOptions_def
        sampleReport_def blankReport_def)
  have entry: "errorEntry sampleExporters sampleOptions (?reports ! 1)
      = (''r2'', ''Failed to export Markdown. Please try again.'')"
    by (simp add: errorEntry_def sampleExporters_def sampleOptions_def blankReport_def)
  have given: "onError sampleOptions \<noteq> None"
    by (simp add: sampleOptions_def)
  show ?thesis
    using batchExport_contains_one_failure [OF quiet quiet' fair one k only] entry given
    by auto
qed

text \<open>
  The claim as it is stated fails for an \<open>onError\<close> that throws: the task of the failing
  report is rejected, and \<open>batchExport\<close> raises what \<open>onError\<close> threw and returns no
  result.
\<close>

theorem batchExport_contains_counterexample:
  "batchExport sampleExporters (\<lambda>tasks. tasks)
     [sampleReport, blankReport, sampleReport\<lparr>rid := ''r3''\<rparr>]
     (sampleOptions\<lparr>onError := Some (\<lambda>reportId message. Some (JsError ''handler failed''))\<rparr>)
   = Some (Inl (JsError ''handler failed''))"
  by (simp add: batchExport_def batchLoop.simps emptyRun_def effectiveBatchSize_def
      sampleOptions_def sampleExporters_def sampleReport_def blankReport_def runTask_def
      tryExport_def callProgress_def catchExport_def Let_def upt_conv_Cons)

section \<open>Results about combining reports\<close>

lemma flat_parsed:
  "flat (map (\<lambda>report.
            case jsonParse rt (highlights report) of
              Some parsed \<Rightarrow> parsed
            | None \<Rightarrow> JArray [JString (highlights report)]) reports)
   = concat (map (\<lambda>report.
            case jsonParse rt (highlights report) of
              Some (JArray vs) \<Rightarrow> vs
            | Some parsed \<Rightarrow> [parsed]
            | None \<Rightarrow> [JString (highlights report)]) reports)"
  by (induction reports) (auto split: option.splits json.splits)

lemma combinedReport_highlights:
  "combinedReport host rt reports combinedTitle = Inr combined \<Longrightarrow>
   highlights combined = generateCombinedHighlights rt reports"
  by (auto simp: combinedReport_def Let_def split: if_splits sum.splits)

lemma truthy_cases:
  "truthy v \<longleftrightarrow> v \<noteq> JNull \<and> v \<noteq> JBool False \<and> v \<noteq> JNumber 0 \<and> v \<noteq> JString []"
  by (cases v) auto

text \<open>
  Claim C5. The highlights of the combined report are the text that \<open>JSON.stringify\<close>
  gives for an array of at most 10 entries, whatever the number of reports. The entries
  are the first 10 of the values that are left when \<open>null\<close>, \<open>false\<close>, the number 0 and
  the empty string are dropped from: for each report in turn, the elements of the parsed
  highlights when they parse to an array, the parsed value itself when they parse to
  another value, and the text of the highlights when they do not parse. None of the
  entries is \<open>null\<close>, \<open>false\<close>, 0 or the empty string. So when the text parses back to
  the array it was printed from, the parsed value has at most 10 entries. With the parser
  taking \<open>["a","b"]\<close> for the array of \<open>a\<close> and \<open>b\<close> and \<open>"c"\<close> for the string \<open>c\<close>,
  two reports with these highlights give the text of the array of \<open>a\<close>, \<open>b\<close> and \<open>c\<close>.
\<close>

theorem generateCombinedHighlights_at_most_ten:
  \<open>\<exists>entries.
      generateCombinedHighlights rt reports = jsonStringify rt (JArray entries)
    \<and> (combinedReport host rt reports combinedTitle = Inr combined
       \<longrightarrow> highlights combined = jsonStringify rt (JArray entries))
    \<and> length entries \<le> 10
    \<and> entries = take 10 (filter
          (\<lambda>v. v \<noteq> JNull \<and> v \<noteq> JBool False \<and> v \<noteq> JNumber 0 \<and> v \<noteq> JString [])
          (concat (map (\<lambda>report.
             case jsonParse rt (highlights report) of
               Some (JArray vs) \<Rightarrow> vs
             | Some parsed \<Rightarrow> [parsed]
             | None \<Rightarrow> [JString (highlights report)]) reports)))
    \<and> (\<forall>v \<in> set entries.
          v \<noteq> JNull \<and> v \<noteq> JBool False \<and> v \<noteq> JNumber 0 \<and> v \<noteq> JString [])
    \<and> (jsonParse rt (jsonStringify rt (JArray entries)) = Some (JArray entries)
       \<longrightarrow> (\<exists>parsed. jsonParse rt (generateCombinedHighlights rt reports) = Some (JArray parsed)
              \<and> length parsed \<le> 10))
    \<and> (map highlights reports = [''["a","b"]'', ''"c"'']
        \<and> jsonParse rt ''["a","b"]'' = Some (JArray [JString ''a'', JString ''b''])
        \<and> jsonParse rt ''"c"'' = Some (JString ''c'')
       \<longrightarrow> entries = [JString ''a'', JString ''b'', JString ''c''])\<close>
proof -
  let ?kept = "\<lambda>v. v \<noteq> JNull \<and> v \<noteq> JBool False \<and> v \<noteq> JNumber 0 \<and> v \<noteq> JString []"
  let ?entries = "take 10 (filter ?kept (concat (map (\<lambda>report.
          case jsonParse rt (highlights report) of
            Some (JArray vs) \<Rightarrow> vs
          | Some parsed \<Rightarrow> [parsed]
          | None \<Rightarrow> [JString (highlights report)]) reports)))"
  have kept: "truthy = ?kept"
    by (rule ext) (rule truthy_cases)
  have out: "generateCombinedHighlights rt reports = jsonStringify rt (JArray ?entries)"
    by (simp only: generateCombinedHighlights_def flat_parsed kept Let_def)
  have field: "combinedReport host rt reports combinedTitle = Inr combined
       \<longrightarrow> highlights combined = jsonStringify rt (JArray ?entries)"
    using out combinedReport_highlights [of host rt reports combinedTitle combined] by simp
  have len: "length ?entries \<le> 10"
    by simp
  have each: "\<forall>v \<in> set ?entries. ?kept v"
  proof
    fix v assume "v \<in> set ?entries"
    then have "v \<in> set (filter ?kept (concat (map (\<lambda>report.
          case jsonParse rt (highlights report) of
            Some (JArray vs) \<Rightarrow> vs
          | Some parsed \<Rightarrow> [parsed]
          | None \<Rightarrow> [JString (highlights report)]) reports)))"
      by (rule in_set_takeD)
    then show "?kept v" by simp
  qed
  have again: "jsonParse rt (jsonStringify rt (JArray ?entries)) = Some (JArray ?entries)
       \<longrightarrow> (\<exists>parsed. jsonParse rt (generateCombinedHighlights rt reports) = Some (JArray parsed)
              \<and> length parsed \<le> 10)"
    using out len by auto
  have example: \<open>map highlights reports = [''["a","b"]'', ''"c"'']
        \<and> jsonParse rt ''["a","b"]'' = Some (JArray [JString ''a'', JString ''b''])
        \<and> jsonParse rt ''"c"'' = Some (JString ''c'')
       \<longrightarrow> ?entries = [JString ''a'', JString ''b'', JString ''c'']\<close>
  proof
    assume h: \<open>map highlights reports = [''["a","b"]'', ''"c"'']
        \<and> jsonParse rt ''["a","b"]'' = Some (JArray [JString ''a'', JString ''b''])
        \<and> jsonParse rt ''"c"'' = Some (JString ''c'')\<close>
    then obtain r1 r2 where rs: "reports = [r1, r2]"
      and h1: \<open>highlights r1 = ''["a","b"]''\<close> and h2: \<open>highlights r2 = ''"c"''\<close>
      by (auto simp: map_eq_Cons_conv)
    show "?entries = [JString ''a'', JString ''b'', JString ''c'']"
      using h by (simp add: rs h1 h2)
  qed
  show ?thesis
    using out field len each again example by blast
qed

theorem generateCombinedHighlights_at_most_ten_witness:
  \<open>generateCombinedHighlights fixtureRuntime
       [sampleReport\<lparr>highlights := ''["a","b"]''\<rparr>, sampleReport\<lparr>highlights := ''"c"''\<rparr>]
     = ''["a","b","c"]''
   \<and> map_sum id highlights
       (combinedReport sampleHost fixtureRuntime
          [sampleReport\<lparr>highlights := ''["a","b"]''\<rparr>, sampleReport\<lparr>highlights := ''"c"''\<rparr>]
          ''Both'')
     = Inr ''["a","b","c"]''
   \<and> jsonParse fixtureRuntime ''["a","b","c"]''
     = Some (JArray [JString ''a'', JString ''b'', JString ''c''])
   \<and> (\<exists>parsed. jsonParse fixtureRuntime
         (generateCombinedHighlights fixtureRuntime
            [sampleReport\<lparr>highlights := ''["a","b"]''\<rparr>, sampleReport\<lparr>highlights := ''"c"''\<rparr>])
       = Some (JArray parsed) \<and> length parsed \<le> 10)
   \<and> generateCombinedHighlights fixtureRuntime
       [sampleReport\<lparr>highlights := ''[null,"a",false,0,"","b"]''\<rparr>]
     = ''["a","b"]''
   \<and> generateCombinedHighlights fixtureRuntime
       [sampleReport\<lparr>highlights := ''["one","two","three","four","five","six","seven"]''\<rparr>,
        sampleReport\<lparr>highlights := ''["eight","nine","ten","eleven","twelve"]''\<rparr>]
     = ''["one","two","three","four","five","six","seven","eight","nine","ten"]''\<close>
proof -
  let ?reports = \<open>[sampleReport\<lparr>highlights := ''["a","b"]''\<rparr>,
      sampleReport\<lparr>highlights := ''"c"''\<rparr>]\<close>
  let ?falsy = \<open>[sampleReport\<lparr>highlights := ''[null,"a",false,0,"","b"]''\<rparr>]\<close>
  let ?twelve = \<open>[sampleReport\<lparr>highlights := ''["one","two","three","four","five","six","seven"]''\<rparr>,
      sampleReport\<lparr>highlights := ''["eight","nine","ten","eleven","twelve"]''\<rparr>]\<close>
  obtain combined where built: "combinedReport sampleHost fixtureRuntime ?reports ''Both''
      = Inr combined"
    by (simp add: combinedReport_def getEarliestDate_def getLatestDate_def isoOfExtreme_def
        fixtureRuntime_def sampleReport_def Let_def)
  have first: \<open>generateCombinedHighlights fixtureRuntime ?reports = ''["a","b","c"]''
   \<and> map_sum id highlights (combinedReport sampleHost fixtureRuntime ?reports ''Both'')
     = Inr ''["a","b","c"]''
   \<and> jsonParse fixtureRuntime ''["a","b","c"]''
     = Some (JArray [JString ''a'', JString ''b'', JString ''c''])
   \<and> (\<exists>parsed. jsonParse fixtureRuntime (generateCombinedHighlights fixtureRuntime ?reports)
       = Some (JArray parsed) \<and> length parsed \<le> 10)\<close>
    using generateCombinedHighlights_at_most_ten [of fixtureRuntime ?reports sampleHost
        "''Both''" combined] built
    by (auto simp: fixtureRuntime_def)
  have second: \<open>generateCombinedHighlights fixtureRuntime ?falsy = ''["a","b"]''\<close>
    using generateCombinedHighlights_at_most_ten [of fixtureRuntime ?falsy sampleHost
        "''Both''" combined]
    by (auto simp: fixtureRuntime_def)
  have third: \<open>generateCombinedHighlights fixtureRuntime ?twelve
      = ''["one","two","three","four","five","six","seven","eight","nine","ten"]''\<close>
    using generateCombinedHighlights_at_most_ten [of fixtureRuntime ?twelve sampleHost
        "''Both''" combined]
    by (auto simp: fixtureRuntime_def)
  show ?thesis
    using first second third by blast
qed

lemma showNat_0: "showNat 0 = ''0''"
  by (subst showNat.simps) simp

text \<open>
  Claim C6. For the empty list of reports the combined report is built and nothing is
  thrown: the summary and the suggestions state the count 0, and the two dates of the
  period are absent, since the computation of the earliest and of the latest date, each
  of which throws on the empty list, is not run.
\<close>

theorem combinedReport_of_no_reports:
  "combinedReport host rt [] combinedTitle
   = Inr \<lparr>rid = ''combined-'' @ showNat (clockAtId rt), title = combinedTitle,
          report_type = ''combined'', content = [],
          summary = ''This combined report includes 0 individual reports covering various periods and activities. Each report has been analyzed and compiled with AI-generated insights and recommendations.'',
          highlights = jsonStringify rt (JArray []),
          suggestions = ''Based on analysis of 0 reports:'' @ [NL, NL],
          generated_at = isoOf rt (clockAtGenerated rt),
          period_start = None, period_end = None, record_count = None\<rparr>
   \<and> getEarliestDate rt [] = Inl (JsError ''Invalid time value'')
   \<and> getLatestDate rt [] = Inl (JsError ''Invalid time value'')"
  by (simp add: combinedReport_def generateCombinedContent_def generateCombinedSummary_def
      generateCombinedHighlights_def generateCombinedSuggestions_def getEarliestDate_def
      getLatestDate_def isoOfExtreme_def showNat_0)

end
